theory Spec2Isabelle
  imports Complex_Main
begin

section \<open>Python numbers\<close>

text \<open>
  A Python \<open>float\<close> is an IEEE 754 binary64 number. A finite one is modelled by its exact
  rational value, and every arithmetic operation computes the exact rational result and
  rounds it to the nearest binary64 value, ties to the even significand. The model covers
  the finite range: a result of magnitude \<open>2^1024\<close> or more (an infinity in Python) and
  NaN are outside of it.
\<close>

type_synonym double = rat

text \<open>The number of binary digits of a positive integer (\<open>int.bit_length\<close>).\<close>

function bit_length :: "int \<Rightarrow> int" where
  "bit_length n = (if n \<le> 0 then 0 else 1 + bit_length (n div 2))"
  by pat_completeness auto
termination
  by (relation "measure nat") auto

declare bit_length.simps [simp del]

definition pow2 :: "int \<Rightarrow> rat" where
  "pow2 k = (if 0 \<le> k then 2 ^ nat k else 1 / 2 ^ nat (- k))"

text \<open>\<open>floor_log2 q\<close> is the integer \<open>k\<close> with \<open>2^k \<le> q < 2^(k+1)\<close>, for \<open>q > 0\<close>.\<close>

definition floor_log2 :: "rat \<Rightarrow> int" where
  "floor_log2 q =
     (let (n, d) = quotient_of q;
          k = bit_length n - bit_length d
      in if pow2 k \<le> q then k else k - 1)"

definition round_half_even :: "rat \<Rightarrow> int" where
  "round_half_even q =
     (let f = \<lfloor>q\<rfloor>; r = q - of_int f
      in if r < 1 / 2 then f
         else if 1 / 2 < r then f + 1
         else if even f then f else f + 1)"

text \<open>
  Rounding to binary64: 53 significant bits, and the fixed exponent \<open>-1074\<close> of the
  subnormal numbers at the bottom of the range.
\<close>

definition rnd64 :: "rat \<Rightarrow> double" where
  "rnd64 q =
     (if q = 0 then 0
      else let e = max (floor_log2 \<bar>q\<bar> - 52) (- 1074)
           in of_int (round_half_even (q / pow2 e)) * pow2 e)"

definition fadd :: "double \<Rightarrow> double \<Rightarrow> double" where
  "fadd x y = rnd64 (x + y)"

definition fsub :: "double \<Rightarrow> double \<Rightarrow> double" where
  "fsub x y = rnd64 (x - y)"

definition fmul :: "double \<Rightarrow> double \<Rightarrow> double" where
  "fmul x y = rnd64 (x * y)"

text \<open>Division; the callers below divide only after checking the divisor.\<close>

definition fdiv :: "double \<Rightarrow> double \<Rightarrow> double" where
  "fdiv x y = rnd64 (x / y)"

text \<open>An \<open>int\<close> operand of a mixed operation is converted to the nearest float first.\<close>

definition float_of_int :: "int \<Rightarrow> double" where
  "float_of_int i = rnd64 (of_int i)"

text \<open>A decimal literal of the source denotes the nearest binary64 value.\<close>

definition lit :: "rat \<Rightarrow> double" where
  "lit q = rnd64 q"

text \<open>
  \<open>round(x, 1)\<close> on a float: the exact value is rounded to one decimal place, ties to
  even, and the decimal result is converted back to the nearest float.
\<close>

definition py_round1 :: "double \<Rightarrow> double" where
  "py_round1 x = rnd64 (of_int (round_half_even (x * 10)) / 10)"

text \<open>\<open>round(x)\<close> on a float gives an \<open>int\<close>, ties to even.\<close>

definition py_round :: "double \<Rightarrow> int" where
  "py_round x = round_half_even x"

section \<open>db.py\<close>

record user_settings =
  spend_ratio :: double
  save_ratio :: double
  share_ratio :: double
  skills_weight :: double
  budgeting_weight :: double
  community_weight :: double
  judgment_weight :: double

text \<open>
  The SQLite database as the queries of the source read it, and the clock. Each field
  but the first and the last is the answer of one query, per user id:
  \<^item> \<open>user_settings_rows\<close>: the row of table \<open>user_settings\<close>, if there is one;
  \<^item> \<open>completed_quest_ids\<close>: \<open>SELECT q.id FROM quest_progress qp JOIN quest q ... WHERE
    qp.completed_at IS NOT NULL\<close>, the rows in the order returned;
  \<^item> \<open>completed_quest_count\<close>: the row count of \<open>quest_progress WHERE ... completed_at
    IS NOT NULL\<close>;
  \<^item> \<open>jar_sum\<close>: \<open>SELECT COALESCE(SUM(amount), 0) FROM budget_log WHERE user_id = ? AND
    jar = ?\<close>;
  \<^item> \<open>log_dates\<close>: \<open>SELECT DISTINCT DATE(ts) ... ORDER BY log_date DESC\<close>, each date as
    its day number;
  \<^item> \<open>board_post_count\<close>, \<open>board_claim_count\<close>: the row counts of \<open>board_post\<close> and
    \<open>board_claim\<close>;
  \<^item> \<open>sim_run_scores\<close>: the scores of \<open>sim_run\<close>, \<open>ORDER BY ran_at DESC\<close> (integers, as
    \<open>calculate_score\<close> produces them);
  \<^item> \<open>current_date\<close>: the day number of \<open>datetime.now().date()\<close>.
\<close>

record database =
  user_settings_rows :: "string \<rightharpoonup> user_settings"
  completed_quest_ids :: "string \<Rightarrow> string list"
  completed_quest_count :: "string \<Rightarrow> int"
  jar_sum :: "string \<Rightarrow> string \<Rightarrow> double"
  log_dates :: "string \<Rightarrow> int list"
  board_post_count :: "string \<Rightarrow> int"
  board_claim_count :: "string \<Rightarrow> int"
  sim_run_scores :: "string \<Rightarrow> int list"
  current_date :: int

definition default_settings :: user_settings where
  "default_settings =
     \<lparr>spend_ratio = 60, save_ratio = 30, share_ratio = 10,
      skills_weight = lit (30 / 100), budgeting_weight = lit (30 / 100),
      community_weight = lit (15 / 100), judgment_weight = lit (25 / 100)\<rparr>"

text \<open>\<open>get_user_settings\<close> inserts the default row when the user has none.\<close>

definition get_user_settings :: "database \<Rightarrow> string \<Rightarrow> user_settings \<times> database" where
  "get_user_settings db user_id =
     (case user_settings_rows db user_id of
        None \<Rightarrow>
          (default_settings,
           db\<lparr>user_settings_rows := (user_settings_rows db)(user_id \<mapsto> default_settings)\<rparr>)
      | Some row \<Rightarrow> (row, db))"

section \<open>budget.py\<close>

record budget_overview =
  ov_spend :: double
  ov_save :: double
  ov_share :: double
  ov_total :: double

definition get_jar_balance :: "database \<Rightarrow> string \<Rightarrow> string \<Rightarrow> double" where
  "get_jar_balance db user_id jar = jar_sum db user_id jar"

definition get_budget_overview :: "database \<Rightarrow> string \<Rightarrow> budget_overview" where
  "get_budget_overview db user_id =
     (let spend_balance = get_jar_balance db user_id ''spend'';
          save_balance = get_jar_balance db user_id ''save'';
          share_balance = get_jar_balance db user_id ''share''
      in \<lparr>ov_spend = spend_balance, ov_save = save_balance, ov_share = share_balance,
          ov_total = fadd (fadd spend_balance save_balance) share_balance\<rparr>)"

text \<open>
  The loop of \<open>get_current_streak\<close> over \<open>enumerate(log_dates)\<close>: \<open>i\<close> is the index,
  \<open>streak\<close> the counter, and a \<open>break\<close> returns the counter.
\<close>

fun streak_loop :: "int \<Rightarrow> int \<Rightarrow> int list \<Rightarrow> int \<Rightarrow> int" where
  "streak_loop today i [] streak = streak"
| "streak_loop today i (log_date # rest) streak =
     (if i = 0 then
        (if log_date = today \<or> log_date = today - 1
         then streak_loop today (i + 1) rest 1
         else streak)
      else
        (if log_date = today - i
         then streak_loop today (i + 1) rest (streak + 1)
         else streak))"

definition get_current_streak :: "database \<Rightarrow> string \<Rightarrow> int" where
  "get_current_streak db user_id =
     (let dates = log_dates db user_id
      in if dates = [] then 0 else streak_loop (current_date db) 0 dates 0)"

text \<open>
  In the arithmetic below an integer constant of the source stands for itself: it is a
  float exactly. An integer variable that meets a float is converted by
  \<open>float_of_int\<close>.
\<close>

definition get_financial_health_score :: "database \<Rightarrow> string \<Rightarrow> double" where
  "get_financial_health_score db user_id =
     (let overview = get_budget_overview db user_id;
          streak = get_current_streak db user_id;
          total = ov_total overview
      in if total = 0 then 0
         else
           let savings_ratio = fdiv (ov_save overview) total;
               savings_score = min 100 (fmul savings_ratio 200);
               streak_bonus = min 20 (streak * 2);
               spend_ratio = (if total > 0 then fdiv (ov_spend overview) total else 1);
               spending_score = max 0 (fsub 30 (fmul spend_ratio 30));
               total_score = fadd (fadd savings_score (float_of_int streak_bonus)) spending_score
           in min 100 total_score)"

section \<open>autonomy.py\<close>

record weights =
  w_skills :: double
  w_budgeting :: double
  w_community :: double
  w_judgment :: double

text \<open>The \<open>AutonomyIndex\<close> instance: its managers hold no state, its one field is mutable.\<close>

record autonomy_index =
  default_weights :: weights

definition init_autonomy_index :: autonomy_index where
  "init_autonomy_index =
     \<lparr>default_weights =
        \<lparr>w_skills = lit (30 / 100), w_budgeting = lit (30 / 100),
         w_community = lit (15 / 100), w_judgment = lit (25 / 100)\<rparr>\<rparr>"

definition calculate_skills_score :: "database \<Rightarrow> string \<Rightarrow> int" where
  "calculate_skills_score db user_id = min 100 (completed_quest_count db user_id * 10)"

definition calculate_budgeting_score :: "database \<Rightarrow> string \<Rightarrow> double" where
  "calculate_budgeting_score db user_id =
     (let base_score = get_financial_health_score db user_id;
          streak = get_current_streak db user_id;
          streak_bonus = min 20 (streak * 2);
          overview = get_budget_overview db user_id;
          total = ov_total overview;
          overspend_penalty =
            (if total > 0
             then let spend_ratio = fdiv (ov_spend overview) total
                  in max 0 (fmul (fsub spend_ratio (lit (7 / 10))) 100)
             else 0);
          final_score = fsub (fadd base_score (float_of_int streak_bonus)) overspend_penalty
      in max 0 (min 100 final_score))"

definition calculate_community_score :: "database \<Rightarrow> string \<Rightarrow> int" where
  "calculate_community_score db user_id =
     (let posts_score = min 50 (board_post_count db user_id * 5);
          claims_score = min 50 (board_claim_count db user_id * 10);
          total_score = posts_score + claims_score
      in min 100 total_score)"

text \<open>\<open>sum(scores) / len(scores)\<close> divides two integers: the quotient, correctly rounded.\<close>

definition calculate_judgment_score :: "database \<Rightarrow> string \<Rightarrow> double" where
  "calculate_judgment_score db user_id =
     (let recent_runs = take 5 (sim_run_scores db user_id)
      in if recent_runs = [] then 50
         else rnd64 (of_int (sum_list recent_runs) / of_int (int (length recent_runs))))"

text \<open>
  \<open>compute_autonomy_index\<close> returns the index and the database, which
  \<open>get_user_settings\<close> may have extended.
\<close>

definition compute_autonomy_index ::
    "autonomy_index \<Rightarrow> database \<Rightarrow> string \<Rightarrow> double \<times> database" where
  "compute_autonomy_index self db user_id =
     (let (settings, db') = get_user_settings db user_id;
          skills_score = calculate_skills_score db' user_id;
          budgeting_score = calculate_budgeting_score db' user_id;
          community_score = calculate_community_score db' user_id;
          judgment_score = calculate_judgment_score db' user_id;
          autonomy_index =
            fadd (fadd (fadd (fmul (float_of_int skills_score) (skills_weight settings))
                             (fmul budgeting_score (budgeting_weight settings)))
                       (fmul (float_of_int community_score) (community_weight settings)))
                 (fmul judgment_score (judgment_weight settings))
      in (py_round1 autonomy_index, db'))"

definition update_weights ::
    "autonomy_index \<Rightarrow> double \<Rightarrow> double \<Rightarrow> double \<Rightarrow> double \<Rightarrow> bool \<times> autonomy_index" where
  "update_weights self skills_w budgeting_w community_w judgment_w =
     (let total_weight = fadd (fadd (fadd skills_w budgeting_w) community_w) judgment_w
      in if \<bar>fsub total_weight 1\<bar> > lit (1 / 100) then (False, self)
         else (True,
               self\<lparr>default_weights :=
                 \<lparr>w_skills = skills_w, w_budgeting = budgeting_w,
                  w_community = community_w, w_judgment = judgment_w\<rparr>\<rparr>))"

text \<open>A sequence of \<open>update_weights\<close> calls on one instance, each with its four arguments.\<close>

fun update_weights_calls ::
    "autonomy_index \<Rightarrow> (double \<times> double \<times> double \<times> double) list \<Rightarrow> autonomy_index" where
  "update_weights_calls self [] = self"
| "update_weights_calls self ((s, b, c, j) # calls) =
     update_weights_calls (snd (update_weights self s b c j)) calls"

section \<open>indiegraph.py\<close>

record skill_node =
  node_id :: string
  title :: string
  description :: string
  difficulty :: int
  category :: string
  prerequisites :: "string list"

record skill_edge =
  edge_from :: string
  edge_to :: string

text \<open>The embedded data of \<open>_load_indiegraph\<close>: 15 nodes and 15 edges, in source order.\<close>

definition load_nodes :: "skill_node list" where
  "load_nodes =
     [\<lparr>node_id = ''basic_laundry'', title = ''Basic Laundry'',
       description = ''Sort, wash, dry, and fold clothes'',
       difficulty = 1, category = ''household'', prerequisites = []\<rparr>,
      \<lparr>node_id = ''meal_planning'', title = ''Meal Planning'',
       description = ''Plan meals and create shopping lists'',
       difficulty = 2, category = ''cooking'', prerequisites = []\<rparr>,
      \<lparr>node_id = ''grocery_shopping'', title = ''Grocery Shopping'',
       description = ''Navigate stores and stick to budget'',
       difficulty = 2, category = ''shopping'', prerequisites = [''meal_planning'']\<rparr>,
      \<lparr>node_id = ''budget_tracking'', title = ''Budget Tracking'',
       description = ''Track income and expenses'',
       difficulty = 2, category = ''finance'', prerequisites = []\<rparr>,
      \<lparr>node_id = ''time_management'', title = ''Time Management'',
       description = ''Plan and prioritize daily activities'',
       difficulty = 2, category = ''planning'', prerequisites = []\<rparr>,
      \<lparr>node_id = ''public_transport'', title = ''Public Transportation'',
       description = ''Navigate buses, trains, and schedules'',
       difficulty = 2, category = ''transportation'', prerequisites = [''time_management'']\<rparr>,
      \<lparr>node_id = ''appointment_booking'', title = ''Appointment Booking'',
       description = ''Schedule and manage appointments'',
       difficulty = 1, category = ''communication'', prerequisites = [''time_management'']\<rparr>,
      \<lparr>node_id = ''emergency_preparedness'', title = ''Emergency Preparedness'',
       description = ''Handle emergency situations safely'',
       difficulty = 3, category = ''safety'',
       prerequisites = [''basic_laundry'', ''budget_tracking'']\<rparr>,
      \<lparr>node_id = ''cooking_basics'', title = ''Cooking Basics'',
       description = ''Prepare simple meals safely'',
       difficulty = 2, category = ''cooking'', prerequisites = [''grocery_shopping'']\<rparr>,
      \<lparr>node_id = ''financial_planning'', title = ''Financial Planning'',
       description = ''Set financial goals and save money'',
       difficulty = 3, category = ''finance'',
       prerequisites = [''budget_tracking'', ''time_management'']\<rparr>,
      \<lparr>node_id = ''conflict_resolution'', title = ''Conflict Resolution'',
       description = ''Handle disagreements constructively'',
       difficulty = 3, category = ''social'', prerequisites = [''appointment_booking'']\<rparr>,
      \<lparr>node_id = ''job_interview'', title = ''Job Interview Skills'',
       description = ''Prepare for and conduct interviews'',
       difficulty = 3, category = ''career'',
       prerequisites = [''conflict_resolution'', ''financial_planning'']\<rparr>,
      \<lparr>node_id = ''community_service'', title = ''Community Service'',
       description = ''Volunteer and give back to community'',
       difficulty = 2, category = ''social'',
       prerequisites = [''time_management'', ''budget_tracking'']\<rparr>,
      \<lparr>node_id = ''public_speaking'', title = ''Public Speaking'',
       description = ''Present confidently to groups'',
       difficulty = 3, category = ''communication'', prerequisites = [''conflict_resolution'']\<rparr>,
      \<lparr>node_id = ''first_aid'', title = ''Basic First Aid'',
       description = ''Provide basic medical assistance'',
       difficulty = 2, category = ''safety'', prerequisites = [''emergency_preparedness'']\<rparr>]"

definition load_edges :: "skill_edge list" where
  "load_edges =
     [\<lparr>edge_from = ''meal_planning'', edge_to = ''grocery_shopping''\<rparr>,
      \<lparr>edge_from = ''time_management'', edge_to = ''public_transport''\<rparr>,
      \<lparr>edge_from = ''time_management'', edge_to = ''appointment_booking''\<rparr>,
      \<lparr>edge_from = ''basic_laundry'', edge_to = ''emergency_preparedness''\<rparr>,
      \<lparr>edge_from = ''budget_tracking'', edge_to = ''emergency_preparedness''\<rparr>,
      \<lparr>edge_from = ''grocery_shopping'', edge_to = ''cooking_basics''\<rparr>,
      \<lparr>edge_from = ''budget_tracking'', edge_to = ''financial_planning''\<rparr>,
      \<lparr>edge_from = ''time_management'', edge_to = ''financial_planning''\<rparr>,
      \<lparr>edge_from = ''appointment_booking'', edge_to = ''conflict_resolution''\<rparr>,
      \<lparr>edge_from = ''conflict_resolution'', edge_to = ''job_interview''\<rparr>,
      \<lparr>edge_from = ''financial_planning'', edge_to = ''job_interview''\<rparr>,
      \<lparr>edge_from = ''time_management'', edge_to = ''community_service''\<rparr>,
      \<lparr>edge_from = ''budget_tracking'', edge_to = ''community_service''\<rparr>,
      \<lparr>edge_from = ''conflict_resolution'', edge_to = ''public_speaking''\<rparr>,
      \<lparr>edge_from = ''emergency_preparedness'', edge_to = ''first_aid''\<rparr>]"

text \<open>
  The \<open>IndieGraph\<close> instance. The two adjacency dictionaries are association lists, read
  with \<open>map_of\<close>: the first pair of a key is the dictionary's entry.
\<close>

record indiegraph =
  nodes :: "skill_node list"
  edges :: "skill_edge list"
  adjacency_list :: "(string \<times> string list) list"
  reverse_adjacency :: "(string \<times> string list) list"

text \<open>\<open>if k in adjacency: adjacency[k].append(v)\<close>\<close>

fun append_to :: "string \<Rightarrow> string \<Rightarrow> (string \<times> string list) list \<Rightarrow> (string \<times> string list) list" where
  "append_to k v [] = []"
| "append_to k v ((k', vs) # rest) =
     (if k' = k then (k', vs @ [v]) # rest else (k', vs) # append_to k v rest)"

definition build_adjacency_list ::
    "skill_node list \<Rightarrow> skill_edge list \<Rightarrow> (string \<times> string list) list" where
  "build_adjacency_list ns es =
     foldl (\<lambda>adjacency edge. append_to (edge_from edge) (edge_to edge) adjacency)
       (map (\<lambda>node. (node_id node, [])) ns) es"

definition build_reverse_adjacency ::
    "skill_node list \<Rightarrow> skill_edge list \<Rightarrow> (string \<times> string list) list" where
  "build_reverse_adjacency ns es =
     foldl (\<lambda>reverse edge. append_to (edge_to edge) (edge_from edge) reverse)
       (map (\<lambda>node. (node_id node, [])) ns) es"

definition init_indiegraph :: indiegraph where
  "init_indiegraph =
     \<lparr>nodes = load_nodes, edges = load_edges,
      adjacency_list = build_adjacency_list load_nodes load_edges,
      reverse_adjacency = build_reverse_adjacency load_nodes load_edges\<rparr>"

definition get_node_by_id :: "indiegraph \<Rightarrow> string \<Rightarrow> skill_node option" where
  "get_node_by_id self nid = find (\<lambda>node. node_id node = nid) (nodes self)"

definition get_prerequisites :: "indiegraph \<Rightarrow> string \<Rightarrow> string list" where
  "get_prerequisites self skill_id =
     (case get_node_by_id self skill_id of
        None \<Rightarrow> []
      | Some node \<Rightarrow> prerequisites node)"

definition get_dependents :: "indiegraph \<Rightarrow> string \<Rightarrow> string list" where
  "get_dependents self skill_id =
     (case map_of (adjacency_list self) skill_id of
        None \<Rightarrow> []
      | Some ds \<Rightarrow> ds)"

definition is_available :: "indiegraph \<Rightarrow> string \<Rightarrow> string set \<Rightarrow> bool" where
  "is_available self skill_id completed_skills =
     list_all (\<lambda>prereq. prereq \<in> completed_skills) (get_prerequisites self skill_id)"

definition get_available_skills :: "indiegraph \<Rightarrow> string set \<Rightarrow> skill_node list" where
  "get_available_skills self completed_skills =
     filter (\<lambda>node. node_id node \<notin> completed_skills
                    \<and> is_available self (node_id node) completed_skills)
       (nodes self)"

definition calculate_centrality :: "indiegraph \<Rightarrow> string \<Rightarrow> int" where
  "calculate_centrality self skill_id =
     int (length (get_dependents self skill_id)) - int (length (get_prerequisites self skill_id))"

text \<open>
  \<open>potential_skills\<close> is the set of ids the loop of \<open>calculate_coverage\<close> collects; the
  result is its size (the \<open>0.0\<close> of the early return is the number 0).
\<close>

definition potential_skills :: "indiegraph \<Rightarrow> string \<Rightarrow> string set \<Rightarrow> string list" where
  "potential_skills self skill_id completed_skills =
     remdups (map node_id
       (filter (\<lambda>node. node_id node \<notin> completed_skills
                      \<and> node_id node \<noteq> skill_id
                      \<and> is_available self (node_id node) (completed_skills \<union> {skill_id}))
          (nodes self)))"

definition calculate_coverage :: "indiegraph \<Rightarrow> string \<Rightarrow> string set \<Rightarrow> int" where
  "calculate_coverage self skill_id completed_skills =
     (if skill_id \<in> completed_skills then 0
      else int (length (potential_skills self skill_id completed_skills)))"

text \<open>
  A recommendation is a plain node (the fallback branch of \<open>get_next_skills\<close>) or a node
  with the added keys \<open>centrality\<close>, \<open>coverage\<close> and \<open>combined_score\<close>.
\<close>

datatype recommendation =
  Basic skill_node
| Scored skill_node (centrality: int) (coverage: int) (combined_score: int)

fun rec_node :: "recommendation \<Rightarrow> skill_node" where
  "rec_node (Basic node) = node"
| "rec_node (Scored node c v s) = node"

text \<open>The slice \<open>xs[:limit]\<close>; a negative limit counts from the end.\<close>

definition slice_to :: "int \<Rightarrow> 'a list \<Rightarrow> 'a list" where
  "slice_to limit xs =
     (if 0 \<le> limit then take (nat limit) xs else take (length xs - nat (- limit)) xs)"

definition score_skill :: "indiegraph \<Rightarrow> string set \<Rightarrow> skill_node \<Rightarrow> recommendation" where
  "score_skill self completed_skills skill =
     (let c = calculate_centrality self (node_id skill);
          v = calculate_coverage self (node_id skill) completed_skills
      in Scored skill c v (c + v))"

text \<open>
  \<open>list.sort(key = ..., reverse = True)\<close> is stable: descending by key, equal keys in their
  original order, as \<open>sort_key\<close> on the negated key is.
\<close>

definition get_next_skills :: "indiegraph \<Rightarrow> database \<Rightarrow> string \<Rightarrow> int \<Rightarrow> recommendation list" where
  "get_next_skills self db user_id limit =
     (let completed_skills = set (completed_quest_ids db user_id);
          available_skills = get_available_skills self completed_skills
      in if available_skills = []
         then slice_to limit (map Basic (filter (\<lambda>node. prerequisites node = []) (nodes self)))
         else
           let scored_skills = map (score_skill self completed_skills) available_skills
           in slice_to limit (sort_key (\<lambda>s. - combined_score s) scored_skills))"

text \<open>
  The \<open>while queue\<close> loop of \<open>get_skill_path\<close>. A queue entry is a skill id and the path
  to it; a path holds what \<open>get_node_by_id\<close> returned, \<open>None\<close> for an id that is not in
  the catalog. An empty queue ends the loop and the function returns \<open>[]\<close>.
\<close>

partial_function (option) skill_path_loop ::
    "indiegraph \<Rightarrow> string set \<Rightarrow> (string \<times> skill_node option list) list \<Rightarrow> string set
      \<Rightarrow> skill_node option list option" where
  "skill_path_loop self completed_skills queue visited =
     (case queue of
        [] \<Rightarrow> Some []
      | (current_skill, path) # rest \<Rightarrow>
          if current_skill \<in> visited
          then skill_path_loop self completed_skills rest visited
          else if is_available self current_skill completed_skills
          then Some (path @ [get_node_by_id self current_skill])
          else skill_path_loop self completed_skills
                 (rest @ map (\<lambda>prereq. (prereq, path @ [get_node_by_id self current_skill]))
                           (filter (\<lambda>prereq. prereq \<notin> completed_skills
                                             \<and> prereq \<notin> insert current_skill visited)
                              (get_prerequisites self current_skill)))
                 (insert current_skill visited))"

declare skill_path_loop.simps [code]

definition get_skill_path :: "indiegraph \<Rightarrow> string \<Rightarrow> string set \<Rightarrow> skill_node option list option" where
  "get_skill_path self target_skill_id completed_skills =
     (if target_skill_id \<in> completed_skills then Some []
      else skill_path_loop self completed_skills [(target_skill_id, [])] {})"

section \<open>sim.py\<close>

datatype py_error = KeyError string

record choice =
  choice_text :: string
  scores :: "(string \<times> int) list"

record step =
  question :: string
  choices :: "choice list"

record scenario =
  scenario_id :: string
  scenario_title :: string
  scenario_description :: string
  est_time :: int
  steps :: "step list"

text \<open>
  The \<open>SimManager\<close> instance. A dictionary whose order of keys matters is an association
  list in insertion order; \<open>dict_set\<close> assigns to a key that is present.
\<close>

record sim_manager =
  scenarios :: "scenario list"
  scoring_weights :: "(string \<times> double) list"

definition init_scoring_weights :: "(string \<times> double) list" where
  "init_scoring_weights =
     [(''frugality'', lit (25 / 100)), (''safety'', lit (30 / 100)),
      (''time'', lit (20 / 100)), (''initiative'', lit (25 / 100))]"

fun dict_set :: "string \<Rightarrow> 'v \<Rightarrow> (string \<times> 'v) list \<Rightarrow> (string \<times> 'v) list" where
  "dict_set k v [] = []"
| "dict_set k v ((k', v') # rest) =
     (if k' = k then (k', v) # rest else (k', v') # dict_set k v rest)"

text \<open>
  \<open>for category, score in choice['scores'].items(): category_scores[category] += score\<close>;
  a category that is not a key of \<open>category_scores\<close> raises \<open>KeyError\<close>.
\<close>

fun add_scores :: "(string \<times> int) list \<Rightarrow> (string \<times> int) list \<Rightarrow> py_error + (string \<times> int) list" where
  "add_scores category_scores [] = Inr category_scores"
| "add_scores category_scores ((cat, score) # items) =
     (case map_of category_scores cat of
        None \<Rightarrow> Inl (KeyError cat)
      | Some old \<Rightarrow> add_scores (dict_set cat (old + score) category_scores) items)"

fun add_choices :: "(string \<times> int) list \<Rightarrow> choice list \<Rightarrow> py_error + (string \<times> int) list" where
  "add_choices category_scores [] = Inr category_scores"
| "add_choices category_scores (c # cs) =
     (case add_scores category_scores (scores c) of
        Inl e \<Rightarrow> Inl e
      | Inr category_scores' \<Rightarrow> add_choices category_scores' cs)"

text \<open>
  \<open>round(category_scores[category] / num_steps)\<close>: the quotient of two integers as a
  float, rounded to an integer.
\<close>

definition average_scores :: "int \<Rightarrow> (string \<times> int) list \<Rightarrow> (string \<times> int) list" where
  "average_scores num_steps category_scores =
     map (\<lambda>(cat, total). (cat, py_round (rnd64 (of_int total / of_int num_steps))))
       category_scores"

text \<open>
  \<open>overall_score += score * self.scoring_weights[category]\<close>, from \<open>overall_score = 0\<close>;
  a category without a weight raises \<open>KeyError\<close>.
\<close>

fun weighted_sum ::
    "(string \<times> double) list \<Rightarrow> double \<Rightarrow> (string \<times> int) list \<Rightarrow> py_error + double" where
  "weighted_sum ws overall_score [] = Inr overall_score"
| "weighted_sum ws overall_score ((cat, score) # items) =
     (case map_of ws cat of
        None \<Rightarrow> Inl (KeyError cat)
      | Some w \<Rightarrow> weighted_sum ws (fadd overall_score (fmul (float_of_int score) w)) items)"

definition calculate_score ::
    "sim_manager \<Rightarrow> scenario \<Rightarrow> choice list \<Rightarrow> py_error + (int \<times> (string \<times> int) list)" where
  "calculate_score self scenario chosen =
     (if chosen = [] \<or> length chosen \<noteq> length (steps scenario) then Inr (0, [])
      else
        case add_choices
               [(''frugality'', 0), (''safety'', 0), (''time'', 0), (''initiative'', 0)] chosen of
          Inl e \<Rightarrow> Inl e
        | Inr totals \<Rightarrow>
            (let num_steps = int (length chosen);
                 category_scores = average_scores num_steps totals
             in (case weighted_sum (scoring_weights self) 0 category_scores of
                   Inl e \<Rightarrow> Inl e
                 | Inr overall_score \<Rightarrow> Inr (py_round overall_score, category_scores))))"

section \<open>Example states\<close>

definition fresh_db :: database where
  "fresh_db =
     \<lparr>user_settings_rows = Map.empty,
      completed_quest_ids = (\<lambda>u. []),
      completed_quest_count = (\<lambda>u. 0),
      jar_sum = (\<lambda>u jar. 0),
      log_dates = (\<lambda>u. []),
      board_post_count = (\<lambda>u. 0),
      board_claim_count = (\<lambda>u. 0),
      sim_run_scores = (\<lambda>u. []),
      current_date = 0\<rparr>"

definition saver_db :: database where
  "saver_db =
     fresh_db\<lparr>jar_sum := (\<lambda>u jar. if jar = ''spend'' then 60 else if jar = ''save'' then 30
                                  else if jar = ''share'' then 10 else 0),
              log_dates := (\<lambda>u. [100, 99, 98]),
              current_date := 100\<rparr>"

text \<open>A scenario of three steps and the choice that scores 80 in every category.\<close>

definition choice_80 :: choice where
  "choice_80 =
     \<lparr>choice_text = ''Plan ahead'',
      scores = [(''frugality'', 80), (''safety'', 80), (''time'', 80), (''initiative'', 80)]\<rparr>"

definition scenario_3 :: scenario where
  "scenario_3 =
     \<lparr>scenario_id = ''scenario_example'', scenario_title = ''Example'',
      scenario_description = ''Three steps'', est_time = 5,
      steps = replicate 3 \<lparr>question = ''What now?'', choices = [choice_80]\<rparr>\<rparr>"

definition init_sim_manager :: sim_manager where
  "init_sim_manager = \<lparr>scenarios = [], scoring_weights = init_scoring_weights\<rparr>"

text \<open>
  Coverage as the docstring of \<open>calculate_coverage\<close> words it, how many new skills would
  be unlocked by completing this skill: the nodes other than \<open>skill_id\<close>, not completed, that are not
  available under \<open>completed_skills\<close> and are available once \<open>skill_id\<close> is added. It is
  compared with \<open>calculate_coverage\<close> below.
\<close>

definition newly_unlocked :: "indiegraph \<Rightarrow> string \<Rightarrow> string set \<Rightarrow> int" where
  "newly_unlocked self skill_id completed_skills =
     (if skill_id \<in> completed_skills then 0
      else int (length (remdups (map node_id
             (filter (\<lambda>node. node_id node \<notin> completed_skills
                            \<and> node_id node \<noteq> skill_id
                            \<and> \<not> is_available self (node_id node) completed_skills
                            \<and> is_available self (node_id node) (completed_skills \<union> {skill_id}))
                (nodes self))))))"

text \<open>A catalog of two nodes that require each other.\<close>

definition cyclic_graph :: indiegraph where
  "cyclic_graph =
     (let ns = [\<lparr>node_id = ''a'', title = ''A'', description = ''needs b'', difficulty = 1,
                 category = ''test'', prerequisites = [''b'']\<rparr>,
                \<lparr>node_id = ''b'', title = ''B'', description = ''needs a'', difficulty = 1,
                 category = ''test'', prerequisites = [''a'']\<rparr>];
          es = [\<lparr>edge_from = ''b'', edge_to = ''a''\<rparr>, \<lparr>edge_from = ''a'', edge_to = ''b''\<rparr>]
      in \<lparr>nodes = ns, edges = es, adjacency_list = build_adjacency_list ns es,
          reverse_adjacency = build_reverse_adjacency ns es\<rparr>)"

section \<open>Properties\<close>

subsection \<open>The rounding model\<close>

lemma bit_length_bounds:
  "0 < n \<Longrightarrow> 1 \<le> bit_length n \<and> 2 ^ nat (bit_length n - 1) \<le> n \<and> n < 2 ^ nat (bit_length n)"
proof (induction n rule: bit_length.induct)
  case (1 n)
  show ?case
  proof (cases "n = 1")
    case True
    have "bit_length 1 = 1" by (simp add: bit_length.simps)
    with True show ?thesis by simp
  next
    case False
    with "1.prems" have m: "0 < n div 2" by simp
    let ?b = "bit_length (n div 2)"
    from "1.IH" m "1.prems" have ih: "1 \<le> ?b" "2 ^ nat (?b - 1) \<le> n div 2" "n div 2 < 2 ^ nat ?b"
      by simp_all
    have bl: "bit_length n = 1 + ?b" using "1.prems" by (subst bit_length.simps) simp
    have e: "nat (1 + ?b) = Suc (nat ?b)" "nat ?b = Suc (nat (?b - 1))" using ih(1) by simp_all
    have lo: "(2::int) ^ nat ?b \<le> n"
    proof -
      have "(2::int) ^ nat ?b = 2 * 2 ^ nat (?b - 1)" using e(2) by simp
      also have "\<dots> \<le> 2 * (n div 2)" using ih(2) by simp
      also have "\<dots> \<le> n" by simp
      finally show ?thesis .
    qed
    have hi: "n < 2 ^ nat (1 + ?b)"
    proof -
      have "n div 2 + 1 \<le> 2 ^ nat ?b" using ih(3) by simp
      then have "2 * (n div 2) + 2 \<le> 2 * 2 ^ nat ?b" by simp
      moreover have "n \<le> 2 * (n div 2) + 1" by simp
      ultimately show ?thesis using e(1) by simp
    qed
    show ?thesis using bl lo hi ih(1) by simp
  qed
qed

lemma pow2_powi: "pow2 k = 2 powi k"
  by (simp add: pow2_def power_int_def inverse_eq_divide power_one_over)

lemma pow2_pos: "0 < pow2 k"
  by (simp add: pow2_powi)

lemma round_half_even_error: "\<bar>of_int (round_half_even q) - q\<bar> \<le> 1 / 2"
proof -
  define r where "r = q - of_int \<lfloor>q\<rfloor>"
  have r: "0 \<le> r" "r < 1" unfolding r_def by linarith+
  have q: "q = of_int \<lfloor>q\<rfloor> + r" by (simp add: r_def)
  have "round_half_even q = \<lfloor>q\<rfloor> \<and> r \<le> 1 / 2 \<or> round_half_even q = \<lfloor>q\<rfloor> + 1 \<and> 1 / 2 \<le> r"
    unfolding round_half_even_def Let_def r_def[symmetric] by auto
  then show ?thesis
  proof
    assume a: "round_half_even q = \<lfloor>q\<rfloor> \<and> r \<le> 1 / 2"
    then have "of_int (round_half_even q) - q = - r" using q by simp
    with a r show ?thesis by simp
  next
    assume a: "round_half_even q = \<lfloor>q\<rfloor> + 1 \<and> 1 / 2 \<le> r"
    then have "of_int (round_half_even q) - q = 1 - r" using q by simp
    with a r show ?thesis by simp
  qed
qed

lemma floor_log2_bounds:
  assumes "0 < q"
  shows "pow2 (floor_log2 q) \<le> q \<and> q < pow2 (floor_log2 q + 1)"
proof -
  obtain n d where nd: "quotient_of q = (n, d)" by (cases "quotient_of q")
  have d: "0 < d" using nd by (rule quotient_of_denom_pos)
  have qd: "q = of_int n / of_int d" using nd by (rule quotient_of_div)
  have n: "0 < n" using assms d qd by (simp add: zero_less_divide_iff)
  let ?bn = "bit_length n" and ?bd = "bit_length d"
  from bit_length_bounds[OF n] have bn: "1 \<le> ?bn" "2 ^ nat (?bn - 1) \<le> n" "n < 2 ^ nat ?bn"
    by simp_all
  from bit_length_bounds[OF d] have bd: "1 \<le> ?bd" "2 ^ nat (?bd - 1) \<le> d" "d < 2 ^ nat ?bd"
    by simp_all
  have rn: "(2::rat) powi (?bn - 1) \<le> of_int n" "of_int n < (2::rat) powi ?bn"
  proof -
    have "(of_int (2 ^ nat (?bn - 1))::rat) \<le> of_int n" using bn(2) by (simp only: of_int_le_iff)
    then show "(2::rat) powi (?bn - 1) \<le> of_int n" using bn(1) by (simp add: power_int_def)
    have "(of_int n::rat) < of_int (2 ^ nat ?bn)" using bn(3) by (simp only: of_int_less_iff)
    then show "of_int n < (2::rat) powi ?bn" using bn(1) by (simp add: power_int_def)
  qed
  have rd: "(2::rat) powi (?bd - 1) \<le> of_int d" "of_int d < (2::rat) powi ?bd"
  proof -
    have "(of_int (2 ^ nat (?bd - 1))::rat) \<le> of_int d" using bd(2) by (simp only: of_int_le_iff)
    then show "(2::rat) powi (?bd - 1) \<le> of_int d" using bd(1) by (simp add: power_int_def)
    have "(of_int d::rat) < of_int (2 ^ nat ?bd)" using bd(3) by (simp only: of_int_less_iff)
    then show "of_int d < (2::rat) powi ?bd" using bd(1) by (simp add: power_int_def)
  qed
  have dpos: "(0::rat) < of_int d" using d by simp
  let ?k = "?bn - ?bd"
  have up: "q < 2 powi (?k + 1)"
  proof -
    have "of_int n < (2::rat) powi ?bn" by (rule rn(2))
    also have "\<dots> = 2 powi (?k + 1) * 2 powi (?bd - 1)"
      by (simp flip: power_int_add)
    also have "\<dots> \<le> 2 powi (?k + 1) * of_int d"
      using rd(1) by (simp add: mult_left_mono)
    finally show ?thesis using dpos by (simp add: qd pos_divide_less_eq)
  qed
  have lo: "2 powi (?k - 1) < q"
  proof -
    have "2 powi (?k - 1) * of_int d < 2 powi (?k - 1) * (2::rat) powi ?bd"
      using rd(2) by (simp add: mult_strict_left_mono)
    also have "\<dots> = 2 powi (?bn - 1)" by (simp flip: power_int_add)
    also have "\<dots> \<le> of_int n" by (rule rn(1))
    finally show ?thesis using dpos by (simp add: qd pos_less_divide_eq)
  qed
  show ?thesis
  proof (cases "pow2 ?k \<le> q")
    case True
    then have "floor_log2 q = ?k" by (simp add: floor_log2_def nd)
    with True up show ?thesis by (simp add: pow2_powi)
  next
    case False
    then have "floor_log2 q = ?k - 1" by (simp add: floor_log2_def nd)
    with False lo show ?thesis by (simp add: pow2_powi)
  qed
qed

text \<open>
  \<open>rnd64 q\<close> is a multiple of the unit in the last place of \<open>q\<close>, with a significand of at
  most 53 bits, and no further from \<open>q\<close> than half that unit.
\<close>

lemma rnd64_nearest:
  assumes "q \<noteq> 0"
  defines "e \<equiv> max (floor_log2 \<bar>q\<bar> - 52) (- 1074)"
  shows "\<exists>m. rnd64 q = of_int m * pow2 e \<and> \<bar>m\<bar> \<le> 2 ^ 53 \<and> \<bar>rnd64 q - q\<bar> \<le> pow2 e / 2"
proof -
  let ?m = "round_half_even (q / pow2 e)"
  have p: "0 < pow2 e" by (rule pow2_pos)
  have r: "rnd64 q = of_int ?m * pow2 e"
    using assms(1) by (simp add: rnd64_def e_def Let_def)
  have err: "\<bar>of_int ?m - q / pow2 e\<bar> \<le> 1 / 2" by (rule round_half_even_error)
  have "\<bar>rnd64 q - q\<bar> = \<bar>of_int ?m - q / pow2 e\<bar> * pow2 e"
  proof -
    have "rnd64 q - q = (of_int ?m - q / pow2 e) * pow2 e"
      using p by (simp add: r left_diff_distrib)
    then show ?thesis using p by (simp add: abs_mult)
  qed
  also have "\<dots> \<le> 1 / 2 * pow2 e" using err p by (simp only: mult_right_mono less_imp_le)
  finally have e2: "\<bar>rnd64 q - q\<bar> \<le> pow2 e / 2" by simp
  have aq: "0 < \<bar>q\<bar>" using assms(1) by simp
  have "\<bar>q\<bar> < pow2 (floor_log2 \<bar>q\<bar> + 1)" using floor_log2_bounds[OF aq] by simp
  also have "\<dots> = 2 ^ 53 * pow2 (floor_log2 \<bar>q\<bar> - 52)"
  proof -
    have "floor_log2 \<bar>q\<bar> + 1 = 53 + (floor_log2 \<bar>q\<bar> - 52)" by arith
    then have "(2::rat) powi (floor_log2 \<bar>q\<bar> + 1) = 2 powi (53 + (floor_log2 \<bar>q\<bar> - 52))"
      by (rule arg_cong)
    also have "\<dots> = 2 powi 53 * 2 powi (floor_log2 \<bar>q\<bar> - 52)"
      by (rule power_int_add) simp
    finally show ?thesis by (simp add: pow2_powi)
  qed
  also have "\<dots> \<le> 2 ^ 53 * pow2 e"
    by (simp add: pow2_powi e_def power_int_increasing)
  finally have "\<bar>q\<bar> / pow2 e < 2 ^ 53" using p by (simp add: pos_divide_less_eq)
  then have b: "\<bar>q / pow2 e\<bar> < 2 ^ 53" using p by (simp only: abs_divide abs_of_pos)
  have "\<bar>?m\<bar> \<le> 2 ^ 53"
  proof -
    have "\<bar>(of_int ?m :: rat)\<bar> \<le> \<bar>of_int ?m - q / pow2 e\<bar> + \<bar>q / pow2 e\<bar>" by linarith
    also have "\<dots> < 1 / 2 + 2 ^ 53" using err b by linarith
    finally have "(of_int \<bar>?m\<bar> :: rat) < of_int (2 ^ 53) + 1 / 2" by simp
    then have "(of_int \<bar>?m\<bar> :: rat) < of_int (2 ^ 53 + 1)" by simp
    then have "\<bar>?m\<bar> < 2 ^ 53 + 1" by (simp only: of_int_less_iff)
    then show ?thesis by simp
  qed
  with r e2 show ?thesis by blast
qed

text \<open>
  Two familiar values: the float \<open>0.1\<close>, and \<open>0.1 + 0.2 = 0.30000000000000004\<close>.
\<close>

lemma lit_tenth: "lit (1 / 10) = 3602879701896397 / 2 ^ 55"
  by code_simp

lemma tenth_plus_fifth: "fadd (lit (1 / 10)) (lit (2 / 10)) = 5404319552844596 / 2 ^ 54"
  by code_simp

subsection \<open>Float arithmetic at the values used below\<close>

lemma rnd64_0: "rnd64 0 = 0"
  by (simp add: rnd64_def)

lemma fmul_0_left: "fmul 0 x = 0"
  by (simp add: fmul_def rnd64_0)

lemma float_of_int_0: "float_of_int 0 = 0"
  by (simp add: float_of_int_def rnd64_0)

lemma fadd_0_0: "fadd 0 0 = 0"
  by (simp add: fadd_def rnd64_0)

lemma fsub_0_0: "fsub 0 0 = 0"
  by (simp add: fsub_def rnd64_0)

lemma judgment_term: "py_round1 (fadd 0 (fmul 50 (lit (1 / 4)))) = 25 / 2"
  by code_simp

lemma judgment_product: "fmul 50 (lit (1 / 4)) = 25 / 2"
  by code_simp






lemma saver_total: "fadd (fadd 60 30) 10 = 100"
  by code_simp

lemma saver_score:
  "max 0 (min 100 (fsub (fadd (min 100 (fadd (fadd (min 100 (fmul (fdiv 30 100) 200))
        (float_of_int 6)) (max 0 (fsub 30 (fmul (fdiv 60 100) 30))))) (float_of_int 6))
        (max 0 (fmul (fsub (fdiv 60 100) (lit (7 / 10))) 100)))) = 84"
  by code_simp

subsection \<open>The skill graph\<close>

text \<open>
  Claim C2, as the code has it. A skill id that is absent from the catalog is available
  under every completed set: \<open>get_prerequisites\<close> answers \<open>[]\<close> for it, and \<open>all\<close> of
  an empty list is true. The claim reads unavailable.
\<close>

theorem absent_skill_is_available:
  assumes "get_node_by_id self skill_id = None"
  shows "is_available self skill_id completed_skills"
  using assms by (simp add: is_available_def get_prerequisites_def)

theorem absent_skill_is_available_witness:
  "get_node_by_id init_indiegraph ''juggling'' = None
   \<and> is_available init_indiegraph ''juggling'' {''basic_laundry''}"
proof -
  have a: "get_node_by_id init_indiegraph ''juggling'' = None" by code_simp
  from a absent_skill_is_available [OF a] show ?thesis by simp
qed

text \<open>
  On the reference catalog the id \<open>no_such_skill\<close> is absent, and \<open>is_available\<close> does
  not return \<open>False\<close> for it under the empty completed set.
\<close>

theorem absent_skill_not_unavailable:
  "get_node_by_id init_indiegraph ''no_such_skill'' = None
   \<and> is_available init_indiegraph ''no_such_skill'' {} \<noteq> False"
  by code_simp

text \<open>
  What \<open>calculate_coverage\<close> counts: the ids of the catalog other than \<open>skill_id\<close>, not
  completed, that are available once \<open>skill_id\<close> is added, whether or not they were
  available before.
\<close>

lemma calculate_coverage_counts:
  "calculate_coverage self skill_id completed_skills =
     (if skill_id \<in> completed_skills then 0
      else int (card {s \<in> node_id ` set (nodes self).
                        s \<notin> completed_skills \<and> s \<noteq> skill_id
                        \<and> is_available self s (insert skill_id completed_skills)}))"
proof -
  have "set (potential_skills self skill_id completed_skills)
      = {s \<in> node_id ` set (nodes self).
           s \<notin> completed_skills \<and> s \<noteq> skill_id
           \<and> is_available self s (insert skill_id completed_skills)}"
    by (auto simp: potential_skills_def)
  moreover have "length (potential_skills self skill_id completed_skills)
      = card (set (potential_skills self skill_id completed_skills))"
    by (simp add: potential_skills_def length_remdups_card_conv)
  ultimately show ?thesis by (simp add: calculate_coverage_def)
qed

text \<open>
  Claim C3 at \<open>calculate_coverage('basic_laundry', set())\<close> on the reference catalog. The
  code returns 3: it counts \<open>meal_planning\<close>, \<open>budget_tracking\<close> and \<open>time_management\<close>,
  which have no prerequisites and were available already. No node becomes available by
  completing \<open>basic_laundry\<close> alone (\<open>emergency_preparedness\<close> also needs
  \<open>budget_tracking\<close>), so the count the claim describes is 0.
\<close>

theorem coverage_counts_available_skills:
  "calculate_coverage init_indiegraph ''basic_laundry'' {} = 3
   \<and> potential_skills init_indiegraph ''basic_laundry'' {}
       = [''meal_planning'', ''budget_tracking'', ''time_management'']
   \<and> list_all (\<lambda>s. is_available init_indiegraph s {})
       (potential_skills init_indiegraph ''basic_laundry'' {})
   \<and> newly_unlocked init_indiegraph ''basic_laundry'' {} = 0"
  by code_simp

lemma next_skills_of_new_user:
  "get_available_skills init_indiegraph {} \<noteq> []
   \<and> slice_to 3 (sort_key (\<lambda>s. - combined_score s)
         (map (score_skill init_indiegraph {}) (get_available_skills init_indiegraph {})))
     = [Scored (load_nodes ! 4) 4 5 9, Scored (load_nodes ! 3) 3 3 6, Scored (load_nodes ! 1) 1 4 5]"
  by code_simp

lemma recommended_nodes:
  "map node_id [load_nodes ! 4, load_nodes ! 3, load_nodes ! 1]
     = [''time_management'', ''budget_tracking'', ''meal_planning'']
   \<and> list_all (\<lambda>node. prerequisites node = []) [load_nodes ! 4, load_nodes ! 3, load_nodes ! 1]"
  by code_simp

lemma available_to_new_user:
  "get_available_skills init_indiegraph {}
     = filter (\<lambda>node. prerequisites node = []) (nodes init_indiegraph)"
  by code_simp

text \<open>
  Claim C1, as the code has it. On the reference catalog, for a user with no completed
  quest and limit 3, the nodes with empty prerequisite lists are exactly the available
  ones, so \<open>get_next_skills\<close> does not take the fallback branch: it scores them, sorts
  them by descending combined score (a stable sort: equal scores keep catalog order) and
  returns the first three. These are \<open>time_management\<close>, \<open>budget_tracking\<close> and
  \<open>meal_planning\<close>, in this order: each has an empty prerequisite list, the order is by
  descending combined score and not catalog order, and \<open>basic_laundry\<close>, the first node
  of the catalog, is not among them.
\<close>

theorem get_next_skills_new_user:
  assumes "completed_quest_ids db user_id = []"
  shows "get_next_skills init_indiegraph db user_id 3
           = slice_to 3 (sort_key (\<lambda>s. - combined_score s)
               (map (score_skill init_indiegraph {})
                  (filter (\<lambda>node. prerequisites node = []) (nodes init_indiegraph))))
         \<and> map (\<lambda>r. node_id (rec_node r)) (get_next_skills init_indiegraph db user_id 3)
           = [''time_management'', ''budget_tracking'', ''meal_planning'']
         \<and> list_all (\<lambda>r. prerequisites (rec_node r) = [])
              (get_next_skills init_indiegraph db user_id 3)
         \<and> sorted (map (\<lambda>r. - combined_score r)
              (get_next_skills init_indiegraph db user_id 3))"
proof -
  have r: "get_next_skills init_indiegraph db user_id 3
      = [Scored (load_nodes ! 4) 4 5 9, Scored (load_nodes ! 3) 3 3 6,
         Scored (load_nodes ! 1) 1 4 5]"
    using next_skills_of_new_user by (simp add: get_next_skills_def assms Let_def)
  have e: "get_next_skills init_indiegraph db user_id 3
      = slice_to 3 (sort_key (\<lambda>s. - combined_score s)
               (map (score_skill init_indiegraph {})
                  (filter (\<lambda>node. prerequisites node = []) (nodes init_indiegraph))))"
    unfolding r using next_skills_of_new_user by (simp add: available_to_new_user)
  have i: "map (\<lambda>r. node_id (rec_node r)) (get_next_skills init_indiegraph db user_id 3)
      = [''time_management'', ''budget_tracking'', ''meal_planning'']"
    unfolding r using recommended_nodes by simp
  have p: "list_all (\<lambda>r. prerequisites (rec_node r) = [])
      (get_next_skills init_indiegraph db user_id 3)"
    unfolding r using recommended_nodes by simp
  have s: "sorted (map (\<lambda>r. - combined_score r)
      (get_next_skills init_indiegraph db user_id 3))"
    unfolding r by simp
  from e i p s show ?thesis by blast
qed

theorem get_next_skills_new_user_witness:
  "completed_quest_ids fresh_db ''u1'' = []
   \<and> map (\<lambda>r. node_id (rec_node r)) (get_next_skills init_indiegraph fresh_db ''u1'' 3)
     = [''time_management'', ''budget_tracking'', ''meal_planning'']"
proof -
  have h: "completed_quest_ids fresh_db ''u1'' = []" by (simp add: fresh_db_def)
  from h get_next_skills_new_user [OF h] show ?thesis by blast
qed

text \<open>
  The ids returned for a new user differ from the first three nodes without prerequisites
  in catalog order (\<open>basic_laundry\<close>, \<open>meal_planning\<close>, \<open>budget_tracking\<close>).
\<close>

theorem get_next_skills_not_catalog_order:
  "set (completed_quest_ids fresh_db ''u1'') = {}
   \<and> map (\<lambda>r. node_id (rec_node r)) (get_next_skills init_indiegraph fresh_db ''u1'' 3)
     \<noteq> map node_id (take 3 (filter (\<lambda>node. prerequisites node = []) (nodes init_indiegraph)))"
  by code_simp

text \<open>
  Claim C9. On the reference catalog \<open>get_skill_path('first_aid', set())\<close> returns the
  chain \<open>first_aid\<close>, \<open>emergency_preparedness\<close>, \<open>basic_laundry\<close>: it starts at the
  target, each node is followed by one of its prerequisites, and the last node,
  \<open>basic_laundry\<close>, is available under the empty completed set.
\<close>

theorem first_aid_path:
  "map_option (map (map_option node_id)) (get_skill_path init_indiegraph ''first_aid'' {})
     = Some [Some ''first_aid'', Some ''emergency_preparedness'', Some ''basic_laundry'']
   \<and> get_prerequisites init_indiegraph ''first_aid'' = [''emergency_preparedness'']
   \<and> get_prerequisites init_indiegraph ''emergency_preparedness''
       = [''basic_laundry'', ''budget_tracking'']
   \<and> is_available init_indiegraph ''basic_laundry'' {}"
  by code_simp

lemma get_prerequisites_subset:
  "set (get_prerequisites g s) \<subseteq> (\<Union>n\<in>set (nodes g). set (prerequisites n))"
proof (cases "get_node_by_id g s")
  case None
  then show ?thesis by (simp add: get_prerequisites_def)
next
  case (Some node)
  then have "node \<in> set (nodes g)"
    by (auto simp: get_node_by_id_def find_Some_iff)
  with Some show ?thesis by (auto simp: get_prerequisites_def)
qed

text \<open>
  The measure of the loop: the ids that are in the queue or are a prerequisite of some
  node, and are not visited yet. Popping a visited id shortens the queue and does not
  enlarge this set; popping an unvisited one removes it from the set, and whatever is
  enqueued is a prerequisite, so the set shrinks.
\<close>

lemma skill_path_loop_returns:
  "card ((fst ` set queue \<union> (\<Union>n\<in>set (nodes g). set (prerequisites n))) - visited) \<le> k
   \<Longrightarrow> \<exists>r. skill_path_loop g c queue visited = Some r"
proof (induction k arbitrary: queue visited rule: less_induct)
  case (less k)
  let ?P = "\<Union>n\<in>set (nodes g). set (prerequisites n)"
  have finP: "finite ?P" by simp
  from less.prems show ?case
  proof (induction queue)
    case Nil
    show ?case by (subst skill_path_loop.simps) simp
  next
    case (Cons entry rest)
    obtain cur path where entry: "entry = (cur, path)" by (cases entry)
    let ?M = "(fst ` set (entry # rest) \<union> ?P) - visited"
    have finM: "finite ?M" using finP by simp
    show ?case
    proof (cases "cur \<in> visited")
      case True
      have "(fst ` set rest \<union> ?P) - visited \<subseteq> ?M" by auto
      then have "card ((fst ` set rest \<union> ?P) - visited) \<le> card ?M"
        using finM by (rule card_mono[rotated])
      with Cons.prems have "card ((fst ` set rest \<union> ?P) - visited) \<le> k" by simp
      from Cons.IH[OF this] obtain r where "skill_path_loop g c rest visited = Some r" ..
      with True entry show ?thesis
        by (subst skill_path_loop.simps) simp
    next
      case False
      show ?thesis
      proof (cases "is_available g cur c")
        case True
        with False entry show ?thesis
          by (subst skill_path_loop.simps) simp
      next
        case na: False
        let ?new = "map (\<lambda>prereq. (prereq, path @ [get_node_by_id g cur]))
                      (filter (\<lambda>prereq. prereq \<notin> c \<and> prereq \<notin> insert cur visited)
                         (get_prerequisites g cur))"
        let ?M' = "(fst ` set (rest @ ?new) \<union> ?P) - insert cur visited"
        have "fst ` set ?new \<subseteq> ?P"
          using get_prerequisites_subset[of g cur] by (auto simp: image_iff)
        then have sub: "?M' \<subseteq> ?M - {cur}" by auto
        have "cur \<in> ?M" using False entry by simp
        then have "card (?M - {cur}) < card ?M"
          using finM by (rule card_Diff1_less[rotated])
        moreover have "card ?M' \<le> card (?M - {cur})"
          using sub finM by (simp add: card_mono)
        ultimately have lt: "card ?M' < k" using Cons.prems by simp
        from less.IH[OF lt order_refl]
        obtain r where "skill_path_loop g c (rest @ ?new) (insert cur visited) = Some r" ..
        with False na entry show ?thesis
          by (subst skill_path_loop.simps) simp
      qed
    qed
  qed
qed

text \<open>
  Claim C10. \<open>get_skill_path\<close> returns for every catalog, cyclic or not, every target id
  and every completed set: the loop, which is defined without any assumption of
  termination, has a result.
\<close>

theorem get_skill_path_terminates:
  "\<exists>path. get_skill_path self target_skill_id completed_skills = Some path"
  using skill_path_loop_returns
          [of "[(target_skill_id, [])]" self "{}" _ completed_skills, OF order_refl]
  by (simp add: get_skill_path_def)

text \<open>
  On two nodes that require each other the search visits both and returns the empty path.
\<close>

lemma cyclic_path: "get_skill_path cyclic_graph ''a'' {} = Some []"
  by code_simp

subsection \<open>Scenario scoring\<close>

text \<open>
  Claim C6. When the number of choices differs from the number of steps of the scenario,
  \<open>calculate_score\<close> returns the overall score 0 and an empty breakdown, and raises
  nothing.
\<close>

theorem calculate_score_length_mismatch:
  "length chosen \<noteq> length (steps scenario) \<Longrightarrow> calculate_score self scenario chosen = Inr (0, [])"
  by (simp add: calculate_score_def)

theorem calculate_score_length_mismatch_witness:
  "length [choice_80, choice_80] \<noteq> length (steps scenario_3)
   \<and> calculate_score init_sim_manager scenario_3 [choice_80, choice_80] = Inr (0, [])"
  using calculate_score_length_mismatch [of "[choice_80, choice_80]" scenario_3 init_sim_manager]
  by (simp add: scenario_3_def)

text \<open>
  A full run, for comparison: three steps, each choice scoring 80 in every category.
\<close>

lemma calculate_score_all_80:
  "calculate_score init_sim_manager scenario_3 [choice_80, choice_80, choice_80]
     = Inr (80, [(''frugality'', 80), (''safety'', 80), (''time'', 80), (''initiative'', 80)])"
  by code_simp

subsection \<open>The Autonomy Index\<close>




lemma budget_zero:
  assumes "jar_sum db u ''spend'' = 0" "jar_sum db u ''save'' = 0" "jar_sum db u ''share'' = 0"
      and "log_dates db u = []"
  shows "calculate_budgeting_score db u = 0"
  using assms
  by (simp add: calculate_budgeting_score_def get_financial_health_score_def
      get_budget_overview_def get_jar_balance_def get_current_streak_def fadd_0_0 fsub_0_0
      float_of_int_0)

text \<open>
  Claim C7. A user with no completed quest, no budget transaction (every jar sums to 0
  and no day is logged), no board post or claim and no simulation run, whose weights are
  the defaults 0.30, 0.30, 0.15 and 0.25 (\<open>get_user_settings\<close> creates them when the user
  has no row), gets the Autonomy Index 12.5. The skills, budgeting and community
  sub-scores are 0 and the judgment sub-score is 50.0, both on the database as given and
  on the database \<open>compute_autonomy_index\<close> computes them on (after
  \<open>get_user_settings\<close>); the weighted judgment term is \<open>50.0 * 0.25 = 12.5\<close>, and the
  index is the rounded weighted sum of these four sub-scores.
\<close>

theorem fresh_user_autonomy_index:
  assumes "completed_quest_count db u = 0"
      and "jar_sum db u ''spend'' = 0" "jar_sum db u ''save'' = 0" "jar_sum db u ''share'' = 0"
      and "log_dates db u = []"
      and "board_post_count db u = 0" "board_claim_count db u = 0"
      and "sim_run_scores db u = []"
      and "skills_weight (fst (get_user_settings db u)) = lit (30 / 100)"
      and "budgeting_weight (fst (get_user_settings db u)) = lit (30 / 100)"
      and "community_weight (fst (get_user_settings db u)) = lit (15 / 100)"
      and "judgment_weight (fst (get_user_settings db u)) = lit (25 / 100)"
  shows "fst (compute_autonomy_index self db u) = 25 / 2
         \<and> calculate_skills_score (snd (get_user_settings db u)) u = 0
         \<and> calculate_budgeting_score (snd (get_user_settings db u)) u = 0
         \<and> calculate_community_score (snd (get_user_settings db u)) u = 0
         \<and> calculate_judgment_score (snd (get_user_settings db u)) u = 50
         \<and> calculate_skills_score db u = 0
         \<and> calculate_budgeting_score db u = 0
         \<and> calculate_community_score db u = 0
         \<and> calculate_judgment_score db u = 50
         \<and> fmul (calculate_judgment_score (snd (get_user_settings db u)) u)
                 (judgment_weight (fst (get_user_settings db u))) = 25 / 2
         \<and> fst (compute_autonomy_index self db u)
           = py_round1 (fadd (fadd (fadd (fmul 0 (lit (30 / 100))) (fmul 0 (lit (30 / 100))))
                                   (fmul 0 (lit (15 / 100))))
                             (fmul 50 (lit (25 / 100))))"
proof -
  obtain settings db' where g: "get_user_settings db u = (settings, db')"
    by (cases "get_user_settings db u")
  have w: "judgment_weight settings = lit (1 / 4)" using assms(12) g by simp
  have same: "completed_quest_count db' u = 0" "jar_sum db' u ''spend'' = 0"
    "jar_sum db' u ''save'' = 0" "jar_sum db' u ''share'' = 0" "log_dates db' u = []"
    "board_post_count db' u = 0" "board_claim_count db' u = 0" "sim_run_scores db' u = []"
    using g assms(1-8) by (auto simp: get_user_settings_def split: option.splits)
  have b': "calculate_budgeting_score db' u = 0" using same by (simp add: budget_zero)
  have b: "calculate_budgeting_score db u = 0" using assms(2-5) by (simp add: budget_zero)
  have s': "calculate_skills_score db' u = 0" using same by (simp add: calculate_skills_score_def)
  have s: "calculate_skills_score db u = 0" using assms(1) by (simp add: calculate_skills_score_def)
  have c': "calculate_community_score db' u = 0"
    using same by (simp add: calculate_community_score_def)
  have c: "calculate_community_score db u = 0"
    using assms(6,7) by (simp add: calculate_community_score_def)
  have j': "calculate_judgment_score db' u = 50"
    using same by (simp add: calculate_judgment_score_def)
  have j: "calculate_judgment_score db u = 50"
    using assms(8) by (simp add: calculate_judgment_score_def)
  have idx: "fst (compute_autonomy_index self db u) = 25 / 2"
    by (simp add: compute_autonomy_index_def g w b' s' c' j'
        float_of_int_0 fmul_0_left fadd_0_0 judgment_term)
  have sum: "py_round1 (fadd (fadd (fadd (fmul 0 (lit (30 / 100))) (fmul 0 (lit (30 / 100))))
                                   (fmul 0 (lit (15 / 100))))
                             (fmul 50 (lit (25 / 100)))) = 25 / 2"
    by (simp add: fmul_0_left fadd_0_0 judgment_term)
  have prod: "fmul (calculate_judgment_score db' u) (judgment_weight settings) = 25 / 2"
    by (simp add: j' w judgment_product)
  show ?thesis
    using idx sum prod s' b' c' j' s b c j by (simp add: g)
qed

theorem fresh_user_autonomy_index_witness:
  "completed_quest_count fresh_db ''u1'' = 0 \<and> sim_run_scores fresh_db ''u1'' = []
   \<and> judgment_weight (fst (get_user_settings fresh_db ''u1'')) = lit (25 / 100)
   \<and> fst (compute_autonomy_index init_autonomy_index fresh_db ''u1'') = 25 / 2
   \<and> calculate_skills_score fresh_db ''u1'' = 0
   \<and> calculate_budgeting_score fresh_db ''u1'' = 0
   \<and> calculate_community_score fresh_db ''u1'' = 0
   \<and> calculate_judgment_score fresh_db ''u1'' = 50"
proof -
  have h: "completed_quest_count fresh_db ''u1'' = 0"
    "jar_sum fresh_db ''u1'' ''spend'' = 0" "jar_sum fresh_db ''u1'' ''save'' = 0"
    "jar_sum fresh_db ''u1'' ''share'' = 0" "log_dates fresh_db ''u1'' = []"
    "board_post_count fresh_db ''u1'' = 0" "board_claim_count fresh_db ''u1'' = 0"
    "sim_run_scores fresh_db ''u1'' = []"
    by (simp_all add: fresh_db_def)
  have w: "skills_weight (fst (get_user_settings fresh_db ''u1'')) = lit (30 / 100)"
    "budgeting_weight (fst (get_user_settings fresh_db ''u1'')) = lit (30 / 100)"
    "community_weight (fst (get_user_settings fresh_db ''u1'')) = lit (15 / 100)"
    "judgment_weight (fst (get_user_settings fresh_db ''u1'')) = lit (25 / 100)"
    by (simp_all add: fresh_db_def get_user_settings_def default_settings_def)
  from fresh_user_autonomy_index [OF h w, of init_autonomy_index] h(1,8) w(4)
  show ?thesis by blast
qed

text \<open>
  Claim C4. \<open>compute_autonomy_index\<close> returns the same index (and leaves the same
  database) after any sequence of \<open>update_weights\<close> calls on the instance, accepted or
  rejected: \<open>update_weights\<close> writes only the field \<open>default_weights\<close>, and
  \<open>compute_autonomy_index\<close> takes its four weights from the user's settings row.
\<close>

theorem update_weights_frame:
  "compute_autonomy_index (update_weights_calls self calls) db u = compute_autonomy_index self db u"
  by (simp add: compute_autonomy_index_def)

text \<open>
  Claim C8. When the total jar balance is positive, the budgeting sub-score is
  \<open>financial_health_score + streak_bonus - overspend_penalty\<close> clamped to \<open>[0, 100]\<close>,
  where \<open>streak_bonus = min(20, streak * 2)\<close>,
  \<open>overspend_penalty = max(0, (spend / total - 0.7) * 100)\<close> and
  \<open>financial_health_score = min(100, min(100, save / total * 200) + streak_bonus +
  max(0, 30 - spend / total * 30))\<close>: the streak bonus is added twice, once inside the
  financial health score and once more by \<open>_calculate_budgeting_score\<close>. Every
  operation is the float operation of the source, in the source's order.
\<close>

theorem budgeting_score_formula:
  assumes "0 < ov_total (get_budget_overview db u)"
  shows "calculate_budgeting_score db u =
           (let spend = jar_sum db u ''spend'';
                save = jar_sum db u ''save'';
                share = jar_sum db u ''share'';
                total = fadd (fadd spend save) share;
                streak_bonus = float_of_int (min 20 (get_current_streak db u * 2));
                financial_health_score =
                  min 100 (fadd (fadd (min 100 (fmul (fdiv save total) 200)) streak_bonus)
                                (max 0 (fsub 30 (fmul (fdiv spend total) 30))));
                overspend_penalty = max 0 (fmul (fsub (fdiv spend total) (lit (7 / 10))) 100)
            in max 0 (min 100 (fsub (fadd financial_health_score streak_bonus)
                                    overspend_penalty)))
         \<and> get_financial_health_score db u =
           (let spend = jar_sum db u ''spend'';
                save = jar_sum db u ''save'';
                share = jar_sum db u ''share'';
                total = fadd (fadd spend save) share;
                streak_bonus = float_of_int (min 20 (get_current_streak db u * 2))
            in min 100 (fadd (fadd (min 100 (fmul (fdiv save total) 200)) streak_bonus)
                             (max 0 (fsub 30 (fmul (fdiv spend total) 30)))))"
proof -
  let ?total = "fadd (fadd (jar_sum db u ''spend'') (jar_sum db u ''save'')) (jar_sum db u ''share'')"
  have t: "0 < ?total"
    using assms by (simp add: get_budget_overview_def get_jar_balance_def Let_def)
  have fhs: "get_financial_health_score db u =
      min 100 (fadd (fadd (min 100 (fmul (fdiv (jar_sum db u ''save'') ?total) 200))
                          (float_of_int (min 20 (get_current_streak db u * 2))))
                    (max 0 (fsub 30 (fmul (fdiv (jar_sum db u ''spend'') ?total) 30))))"
    using t by (simp add: get_financial_health_score_def get_budget_overview_def
        get_jar_balance_def Let_def)
  have bs: "calculate_budgeting_score db u =
      max 0 (min 100 (fsub (fadd (get_financial_health_score db u)
                                 (float_of_int (min 20 (get_current_streak db u * 2))))
                           (max 0 (fmul (fsub (fdiv (jar_sum db u ''spend'') ?total)
                                              (lit (7 / 10))) 100))))"
    using t by (simp add: calculate_budgeting_score_def get_budget_overview_def
        get_jar_balance_def Let_def)
  show ?thesis
    unfolding Let_def bs fhs by simp
qed

text \<open>
  At jar balances 60, 30 and 10 and a streak of three days the financial health score is
  \<open>60 + 6 + 12 = 78\<close> and the budgeting sub-score \<open>78 + 6 - 0 = 84\<close>.
\<close>

lemma saver_streak: "get_current_streak saver_db u = 3"
  by (simp add: get_current_streak_def saver_db_def fresh_db_def)

theorem budgeting_score_formula_witness:
  "0 < ov_total (get_budget_overview saver_db ''u1'')
   \<and> get_current_streak saver_db ''u1'' = 3
   \<and> calculate_budgeting_score saver_db ''u1'' = 84"
proof -
  have j: "jar_sum saver_db ''u1'' ''spend'' = 60" "jar_sum saver_db ''u1'' ''save'' = 30"
    "jar_sum saver_db ''u1'' ''share'' = 10"
    by (simp_all add: saver_db_def fresh_db_def)
  have t: "0 < ov_total (get_budget_overview saver_db ''u1'')"
    by (simp add: get_budget_overview_def get_jar_balance_def Let_def j saver_total)
  have "calculate_budgeting_score saver_db ''u1'' = 84"
    using budgeting_score_formula [OF t]
    unfolding Let_def j saver_total saver_streak
    by (simp add: saver_score)
  with t saver_streak show ?thesis by simp
qed

end
